theory Spec2Isabelle
  imports Main "HOL-Library.Sublist"
begin

section \<open>Python values and exceptions\<close>

text \<open>
  The program is \<^verbatim>\<open>python_cli_app/main.py\<close>. It drives a headless browser (the
  \<^verbatim>\<open>nodriver\<close> library), logs what it finds and returns \<^verbatim>\<open>None\<close> or a dictionary.
  Strings are byte strings (the UTF-8 form of Python's \<^verbatim>\<open>str\<close>). The values that come
  out of \<^verbatim>\<open>json.loads\<close> and \<^verbatim>\<open>tab.evaluate\<close> are modelled by one datatype.
\<close>

text \<open>
  A Python float read from a text: \<open>Finite m e\<close> is the decimal \<open>m * 10 ^ e\<close> as
  written, and the float is the double nearest to it.
\<close>

datatype pyfloat = Finite int int | PosInfinity | NegInfinity | NaN

datatype json =
    JNull
  | JBool bool
  | JInt int
  | JFloat pyfloat
  | JString string
  | JArray "json list"
  | JObject "(string \<times> json) list"

text \<open>
  A dictionary is an association list in insertion order with one entry per key;
  \<open>map_of\<close> reads it. \<open>JNull\<close> is Python's \<^verbatim>\<open>None\<close>.
\<close>

text \<open>
  The exceptions of the model. \<open>BrowserError\<close> is any \<^verbatim>\<open>Exception\<close> raised by a call
  into the browser library.
\<close>

datatype py_exn = JSONDecodeError | TypeError | AttributeError | RecursionError | BrowserError

type_synonym decoder = "string \<Rightarrow> py_exn + json"

text \<open>The outcome of a call into the browser: it raises an \<^verbatim>\<open>Exception\<close> or returns.\<close>

datatype 'a attempt = Raises | Returns 'a

text \<open>Truth value testing (\<^verbatim>\<open>if x\<close>, \<^verbatim>\<open>x and y\<close>, \<^verbatim>\<open>not x\<close>).\<close>

text \<open>
  A float is false when it is zero. The double nearest to a decimal is zero when the
  decimal is at most \<open>2 ^ - 1075\<close> in absolute value (half the least positive double,
  which rounds to even).
\<close>

fun float_truthy :: "pyfloat \<Rightarrow> bool" where
  "float_truthy (Finite m e) =
     (m \<noteq> 0 \<and> (0 \<le> e \<or> 10 ^ nat (- e) < \<bar>m\<bar> * 2 ^ 1075))"
| "float_truthy PosInfinity = True"
| "float_truthy NegInfinity = True"
| "float_truthy NaN = True"

fun truthy :: "json \<Rightarrow> bool" where
  "truthy JNull = False"
| "truthy (JBool b) = b"
| "truthy (JInt i) = (i \<noteq> 0)"
| "truthy (JFloat f) = float_truthy f"
| "truthy (JString s) = (s \<noteq> [])"
| "truthy (JArray xs) = (xs \<noteq> [])"
| "truthy (JObject kvs) = (kvs \<noteq> [])"

text \<open>\<^verbatim>\<open>d.get(key, default)\<close> on a dictionary.\<close>

definition dict_get :: "(string \<times> json) list \<Rightarrow> string \<Rightarrow> json \<Rightarrow> json" where
  "dict_get kvs key dflt = (case map_of kvs key of None \<Rightarrow> dflt | Some v \<Rightarrow> v)"

text \<open>
  \<^verbatim>\<open>x.get(key, default)\<close> on any value: only a dictionary has the method, every
  other value raises \<^verbatim>\<open>AttributeError\<close>.
\<close>

fun py_get :: "json \<Rightarrow> string \<Rightarrow> json \<Rightarrow> py_exn + json" where
  "py_get (JObject kvs) key dflt = Inr (dict_get kvs key dflt)"
| "py_get _ key dflt = Inl AttributeError"

text \<open>
  \<^verbatim>\<open>for x in v\<close> (also \<^verbatim>\<open>enumerate(v)\<close>): a list gives its elements, a dictionary its
  keys, a string its one-character strings; \<^verbatim>\<open>None\<close>, booleans and numbers raise
  \<^verbatim>\<open>TypeError\<close>.
\<close>

fun py_iter :: "json \<Rightarrow> py_exn + json list" where
  "py_iter (JArray xs) = Inr xs"
| "py_iter (JObject kvs) = Inr (map (\<lambda>kv. JString (fst kv)) kvs)"
| "py_iter (JString s) = Inr (map (\<lambda>c. JString [c]) s)"
| "py_iter _ = Inl TypeError"

text \<open>
  \<^verbatim>\<open>json.loads(v)\<close>: the decoder of the standard library is a parameter of the model.
  It is given a string; any other value here raises \<^verbatim>\<open>TypeError\<close> before decoding.
\<close>

fun py_json_loads :: "decoder \<Rightarrow> json \<Rightarrow> py_exn + json" where
  "py_json_loads loads (JString s) = loads s"
| "py_json_loads loads _ = Inl TypeError"

text \<open>\<^verbatim>\<open>sub in s\<close> on strings.\<close>

fun contains :: "string \<Rightarrow> string \<Rightarrow> bool" where
  "contains sub [] = (sub = [])"
| "contains sub (c # cs) = (prefix sub (c # cs) \<or> contains sub cs)"


section \<open>The listing parser of \<^verbatim>\<open>_fetch_and_print_articles\<close>\<close>

text \<open>
  What the loop logs for one item (lines 190 to 214). The constructors are the seven
  log calls; the ones with an argument are the \<^verbatim>\<open>logger.info\<close> lines that print a title.
\<close>

datatype item_log =
    FromAppmsgInfo json
  | FromPublishInfoList json
  | FromPublishInfoAppmsgInfo json
  | TitleNotFoundInPublishInfo
  | PublishInfoNotJson
  | DirectTitle json
  | TitleNotFoundInItem

text \<open>The variable \<^verbatim>\<open>title\<close> at the end of an iteration; \<open>None\<close> is Python's \<^verbatim>\<open>None\<close>.\<close>

fun title_of :: "item_log \<Rightarrow> json option" where
  "title_of (FromAppmsgInfo t) = Some t"
| "title_of (FromPublishInfoList t) = Some t"
| "title_of (FromPublishInfoAppmsgInfo t) = Some t"
| "title_of TitleNotFoundInPublishInfo = None"
| "title_of PublishInfoNotJson = None"
| "title_of (DirectTitle t) = Some t"
| "title_of TitleNotFoundInItem = None"

text \<open>\<^verbatim>\<open>isinstance(x, dict)\<close>.\<close>

fun is_dict :: "json \<Rightarrow> bool" where
  "is_dict (JObject kvs) = True"
| "is_dict _ = False"

text \<open>
  Lines 197 to 205: the body of the loop over \<^verbatim>\<open>article_details_list\<close> for one
  \<^verbatim>\<open>article_detail\<close>. \<open>Some\<close> is a title and \<^verbatim>\<open>break\<close>, \<open>None\<close> is the next entry. An
  entry that is not a dictionary is passed over;
  \<^verbatim>\<open>article_detail.get("appmsg_info", {}).get("title")\<close> raises when the value under
  \<^verbatim>\<open>appmsg_info\<close> is not a dictionary.
\<close>

fun article_detail_title :: "json \<Rightarrow> py_exn + item_log option" where
  "article_detail_title (JObject kvs) =
     (if truthy (dict_get kvs ''title'' JNull)
      then Inr (Some (FromPublishInfoList (dict_get kvs ''title'' JNull)))
      else (case py_get (dict_get kvs ''appmsg_info'' (JObject [])) ''title'' JNull of
              Inl e \<Rightarrow> Inl e
            | Inr t \<Rightarrow>
                if truthy t then Inr (Some (FromPublishInfoAppmsgInfo t)) else Inr None))"
| "article_detail_title _ = Inr None"

text \<open>Lines 196 to 207: the loop, and the warning of line 207 when it found no title.\<close>

fun scan_article_details :: "json list \<Rightarrow> py_exn + item_log" where
  "scan_article_details [] = Inr TitleNotFoundInPublishInfo"
| "scan_article_details (article_detail # rest) =
     (case article_detail_title article_detail of
        Inl e \<Rightarrow> Inl e
      | Inr (Some l) \<Rightarrow> Inr l
      | Inr None \<Rightarrow> scan_article_details rest)"

text \<open>
  Lines 194 to 209: \<^verbatim>\<open>json.loads(publish_info)\<close> inside
  \<^verbatim>\<open>try ... except json.JSONDecodeError\<close>. Only that exception is caught here.
\<close>

definition title_from_publish_info :: "decoder \<Rightarrow> json \<Rightarrow> py_exn + item_log" where
  "title_from_publish_info loads publish_info =
     (case py_json_loads loads publish_info of
        Inl JSONDecodeError \<Rightarrow> Inr PublishInfoNotJson
      | Inl e \<Rightarrow> Inl e
      | Inr article_details_list \<Rightarrow>
          (case py_iter article_details_list of
             Inl e \<Rightarrow> Inl e
           | Inr ds \<Rightarrow> scan_article_details ds))"

text \<open>
  Line 190, \<^verbatim>\<open>appmsg_info and appmsg_info.get("title")\<close>: the value of the condition.
\<close>

definition appmsg_info_title :: "json \<Rightarrow> py_exn + json" where
  "appmsg_info_title appmsg_info =
     (if truthy appmsg_info then py_get appmsg_info ''title'' JNull else Inr appmsg_info)"

text \<open>Lines 186 to 214: the body of the loop for one \<^verbatim>\<open>item_wrapper\<close>.\<close>

definition article_title :: "decoder \<Rightarrow> json \<Rightarrow> py_exn + item_log" where
  "article_title loads item_wrapper =
     (case py_get item_wrapper ''publish_info'' JNull of
        Inl e \<Rightarrow> Inl e
      | Inr publish_info \<Rightarrow>
     (case py_get item_wrapper ''appmsg_info'' JNull of
        Inl e \<Rightarrow> Inl e
      | Inr appmsg_info \<Rightarrow>
     (case appmsg_info_title appmsg_info of
        Inl e \<Rightarrow> Inl e
      | Inr t \<Rightarrow>
          if truthy t then Inr (FromAppmsgInfo t)
          else if truthy publish_info then title_from_publish_info loads publish_info
          else (case py_get item_wrapper ''title'' JNull of
                  Inl e \<Rightarrow> Inl e
                | Inr d \<Rightarrow>
                    if truthy d then Inr (DirectTitle d) else Inr TitleNotFoundInItem))))"


text \<open>
  An item on which line 190 is false and raises nothing: it has nothing under
  \<^verbatim>\<open>appmsg_info\<close>, or a value that is not truthy, or a dictionary without a truthy
  \<^verbatim>\<open>title\<close>.
\<close>

definition no_appmsg_info_title :: "(string \<times> json) list \<Rightarrow> bool" where
  "no_appmsg_info_title kvs =
     (case map_of kvs ''appmsg_info'' of
        None \<Rightarrow> True
      | Some (JObject a) \<Rightarrow> \<not> truthy (dict_get a ''title'' JNull)
      | Some v \<Rightarrow> \<not> truthy v)"

text \<open>
  An entry of a \<^verbatim>\<open>publish_info\<close> list that carries no title and raises nothing: it is not
  a dictionary, or it is one without a truthy \<^verbatim>\<open>title\<close> that has nothing under
  \<^verbatim>\<open>appmsg_info\<close> or a dictionary without a truthy \<^verbatim>\<open>title\<close> there.
\<close>

fun no_title_entry :: "json \<Rightarrow> bool" where
  "no_title_entry (JObject kvs) =
     (\<not> truthy (dict_get kvs ''title'' JNull) \<and>
      (case map_of kvs ''appmsg_info'' of
         None \<Rightarrow> True
       | Some (JObject a) \<Rightarrow> \<not> truthy (dict_get a ''title'' JNull)
       | Some v \<Rightarrow> False))"
| "no_title_entry _ = True"

text \<open>
  Line 185: the loop. It returns what was logged, item by item, and the exception that
  stopped it, if one did.
\<close>

fun article_loop :: "decoder \<Rightarrow> json list \<Rightarrow> item_log list \<times> py_exn option" where
  "article_loop loads [] = ([], None)"
| "article_loop loads (item_wrapper # rest) =
     (case article_title loads item_wrapper of
        Inl e \<Rightarrow> ([], Some e)
      | Inr l \<Rightarrow> (case article_loop loads rest of (ls, e) \<Rightarrow> (l # ls, e)))"

text \<open>
  The ways the parsing part (lines 170 to 214) ends:
  \<^item> \<open>JsonDecodeFailed\<close>: line 174, "Failed to decode JSON from article fetch";
  \<^item> \<open>NoArticlesFound\<close>: line 181, "No articles found or unexpected JSON structure";
  \<^item> \<open>FetchedArticles\<close>: the loop went through every item;
  \<^item> \<open>FetchingError\<close>: line 217, the handler of the enclosing \<^verbatim>\<open>except Exception\<close>,
    after the items logged so far.
\<close>

datatype listing_outcome =
    JsonDecodeFailed
  | NoArticlesFound
  | FetchedArticles "item_log list"
  | FetchingError py_exn "item_log list"

text \<open>Line 178: \<^verbatim>\<open>json_response.get("publish_page", {}).get("publish_list", [])\<close>.\<close>

definition publish_list_of :: "json \<Rightarrow> py_exn + json" where
  "publish_list_of json_response =
     (case py_get json_response ''publish_page'' (JObject []) of
        Inl e \<Rightarrow> Inl e
      | Inr publish_page \<Rightarrow> py_get publish_page ''publish_list'' (JArray []))"

definition parse_articles :: "decoder \<Rightarrow> json \<Rightarrow> listing_outcome" where
  "parse_articles loads json_text_content =
     (case py_json_loads loads json_text_content of
        Inl JSONDecodeError \<Rightarrow> JsonDecodeFailed
      | Inl e \<Rightarrow> FetchingError e []
      | Inr json_response \<Rightarrow>
     (case publish_list_of json_response of
        Inl e \<Rightarrow> FetchingError e []
      | Inr publish_list \<Rightarrow>
          if \<not> truthy publish_list then NoArticlesFound
          else (case py_iter publish_list of
                  Inl e \<Rightarrow> FetchingError e []
                | Inr items \<Rightarrow>
                    (case article_loop loads items of
                       (logs, None) \<Rightarrow> FetchedArticles logs
                     | (logs, Some e) \<Rightarrow> FetchingError e logs))))"

text \<open>The titles of the items that were logged.\<close>

fun listing_titles :: "listing_outcome \<Rightarrow> json option list" where
  "listing_titles JsonDecodeFailed = []"
| "listing_titles NoArticlesFound = []"
| "listing_titles (FetchedArticles logs) = map title_of logs"
| "listing_titles (FetchingError e logs) = map title_of logs"


section \<open>A decoder for JSON texts\<close>

text \<open>
  The functions above take \<^verbatim>\<open>json.loads\<close> as a parameter. \<open>json_loads\<close> is a decoder to
  run them on the texts of the examples: the grammar of the library's decoder (RFC
  8259, and the constants \<^verbatim>\<open>NaN\<close>, \<^verbatim>\<open>Infinity\<close> and \<^verbatim>\<open>-Infinity\<close> that Python also
  reads), by recursive descent. A duplicate key keeps its first place and takes the
  last value, as in a Python dictionary. The recursion is counted down from twice the
  length of the text: a value, an element or a member uses at least one character, and a
  call that uses none is followed by one that does. The library raises
  \<^verbatim>\<open>RecursionError\<close> on a text nested deeper than the interpreter allows and
  \<^verbatim>\<open>ValueError\<close> on an integer of more than 4300 digits; \<open>json_loads\<close> does not, and it
  is used below on short texts only. The statements about every text take the decoder
  as the parameter \<open>loads\<close>.
\<close>

definition is_ws :: "char \<Rightarrow> bool" where
  "is_ws c = (c = CHR '' '' \<or> c = CHR 0x09 \<or> c = CHR 0x0A \<or> c = CHR 0x0D)"

definition skip_ws :: "string \<Rightarrow> string" where
  "skip_ws cs = dropWhile is_ws cs"

definition is_digit :: "char \<Rightarrow> bool" where
  "is_digit c = (48 \<le> (of_char c :: nat) \<and> (of_char c :: nat) \<le> 57)"

definition digits_value :: "string \<Rightarrow> nat" where
  "digits_value ds = foldl (\<lambda>n c. 10 * n + ((of_char c :: nat) - 48)) 0 ds"

definition hex_value :: "char \<Rightarrow> nat option" where
  "hex_value c =
     (let n = (of_char c :: nat) in
      if 48 \<le> n \<and> n \<le> 57 then Some (n - 48)
      else if 65 \<le> n \<and> n \<le> 70 then Some (n - 55)
      else if 97 \<le> n \<and> n \<le> 102 then Some (n - 87)
      else None)"

fun decode_uXXXX :: "string \<Rightarrow> nat option" where
  "decode_uXXXX (a # b # c # d # _) =
     (case (hex_value a, hex_value b, hex_value c, hex_value d) of
        (Some h3, Some h2, Some h1, Some h0) \<Rightarrow> Some (4096 * h3 + 256 * h2 + 16 * h1 + h0)
      | _ \<Rightarrow> None)"
| "decode_uXXXX _ = None"

definition utf8_encode :: "nat \<Rightarrow> string" where
  "utf8_encode n =
     (if n < 128 then [char_of n]
      else if n < 2048 then [char_of (192 + n div 64), char_of (128 + n mod 64)]
      else if n < 65536 then
        [char_of (224 + n div 4096), char_of (128 + n div 64 mod 64), char_of (128 + n mod 64)]
      else
        [char_of (240 + n div 262144), char_of (128 + n div 4096 mod 64),
         char_of (128 + n div 64 mod 64), char_of (128 + n mod 64)])"

definition simple_escape :: "char \<Rightarrow> char option" where
  "simple_escape e =
     (if e = CHR 0x22 then Some (CHR 0x22)
      else if e = CHR 0x5C then Some (CHR 0x5C)
      else if e = CHR ''/'' then Some (CHR ''/'')
      else if e = CHR ''b'' then Some (CHR 0x08)
      else if e = CHR ''f'' then Some (CHR 0x0C)
      else if e = CHR ''n'' then Some (CHR 0x0A)
      else if e = CHR ''r'' then Some (CHR 0x0D)
      else if e = CHR ''t'' then Some (CHR 0x09)
      else None)"

text \<open>
  The escape after a backslash: the bytes it stands for and how many characters it
  takes. A high surrogate followed by a low one is one code point.
\<close>

definition decode_escape :: "string \<Rightarrow> (string \<times> nat) option" where
  "decode_escape cs =
     (case cs of
        [] \<Rightarrow> None
      | e # r \<Rightarrow>
          if e = CHR ''u'' then
            (case decode_uXXXX r of
               None \<Rightarrow> None
             | Some uni \<Rightarrow>
                 if 55296 \<le> uni \<and> uni \<le> 56319 \<and> prefix [CHR 0x5C, CHR ''u''] (drop 4 r) then
                   (case decode_uXXXX (drop 6 r) of
                      None \<Rightarrow> None
                    | Some uni2 \<Rightarrow>
                        if 56320 \<le> uni2 \<and> uni2 \<le> 57343
                        then Some (utf8_encode (65536 + ((uni - 55296) * 1024 + (uni2 - 56320))), 11)
                        else Some (utf8_encode uni, 5))
                 else Some (utf8_encode uni, 5))
          else (case simple_escape e of None \<Rightarrow> None | Some c \<Rightarrow> Some ([c], 1)))"

fun scan_string :: "string \<Rightarrow> string \<Rightarrow> (string \<times> string) option" where
  "scan_string acc [] = None"
| "scan_string acc (c # cs) =
     (if c = CHR 0x22 then Some (acc, cs)
      else if c = CHR 0x5C then
        (case decode_escape cs of
           None \<Rightarrow> None
         | Some (bytes, n) \<Rightarrow> scan_string (acc @ bytes) (drop n cs))
      else if (of_char c :: nat) < 32 then None
      else scan_string (acc @ [c]) cs)"

definition match_number :: "string \<Rightarrow> (json \<times> string) option" where
  "match_number cs =
     (let neg = prefix ''-'' cs;
          cs1 = (if neg then tl cs else cs);
          ds = takeWhile is_digit cs1;
          ip = (if prefix ''0'' ds then ''0'' else ds);
          r1 = drop (length ip) cs1;
          fs = (if prefix ''.'' r1 then takeWhile is_digit (tl r1) else []);
          r2 = (if fs = [] then r1 else drop (Suc (length fs)) r1);
          has_e = (prefix ''e'' r2 \<or> prefix ''E'' r2);
          r2' = (if has_e then tl r2 else r2);
          eneg = prefix ''-'' r2';
          r2'' = (if prefix ''-'' r2' \<or> prefix ''+'' r2' then tl r2' else r2');
          es = (if has_e then takeWhile is_digit r2'' else []);
          r3 = (if es = [] then r2 else drop (length es) r2'');
          sgn = (if neg then - 1 else 1 :: int);
          ex = (if eneg then - int (digits_value es) else int (digits_value es))
      in if ip = [] then None
         else if fs = [] \<and> es = [] then Some (JInt (sgn * int (digits_value ip)), r3)
         else Some (JFloat (Finite (sgn * int (digits_value (ip @ fs))) (ex - int (length fs))), r3))"

definition dict_set :: "string \<Rightarrow> json \<Rightarrow> (string \<times> json) list \<Rightarrow> (string \<times> json) list" where
  "dict_set k v kvs =
     (if k \<in> fst ` set kvs then map (\<lambda>kv. if fst kv = k then (k, v) else kv) kvs
      else kvs @ [(k, v)])"

fun decode_value :: "nat \<Rightarrow> string \<Rightarrow> (json \<times> string) option"
  and decode_array :: "nat \<Rightarrow> json list \<Rightarrow> string \<Rightarrow> (json \<times> string) option"
  and decode_object :: "nat \<Rightarrow> (string \<times> json) list \<Rightarrow> string \<Rightarrow> (json \<times> string) option"
where
  "decode_value 0 cs = None"
| "decode_value (Suc n) cs =
     (case cs of
        [] \<Rightarrow> None
      | c # r \<Rightarrow>
          if c = CHR 0x22 then
            (case scan_string [] r of None \<Rightarrow> None | Some (s, r') \<Rightarrow> Some (JString s, r'))
          else if c = CHR ''{'' then
            (if prefix ''}'' (skip_ws r) then Some (JObject [], tl (skip_ws r))
             else decode_object n [] (skip_ws r))
          else if c = CHR ''['' then
            (if prefix '']'' (skip_ws r) then Some (JArray [], tl (skip_ws r))
             else decode_array n [] (skip_ws r))
          else if prefix ''null'' cs then Some (JNull, drop 4 cs)
          else if prefix ''true'' cs then Some (JBool True, drop 4 cs)
          else if prefix ''false'' cs then Some (JBool False, drop 5 cs)
          else (case match_number cs of
                  Some res \<Rightarrow> Some res
                | None \<Rightarrow>
                    if prefix ''NaN'' cs then Some (JFloat NaN, drop 3 cs)
                    else if prefix ''Infinity'' cs then Some (JFloat PosInfinity, drop 8 cs)
                    else if prefix ''-Infinity'' cs then Some (JFloat NegInfinity, drop 9 cs)
                    else None))"
| "decode_array 0 acc cs = None"
| "decode_array (Suc n) acc cs =
     (case decode_value n cs of
        None \<Rightarrow> None
      | Some (v, r) \<Rightarrow>
          if prefix '']'' (skip_ws r) then Some (JArray (acc @ [v]), tl (skip_ws r))
          else if prefix '','' (skip_ws r) then decode_array n (acc @ [v]) (skip_ws (tl (skip_ws r)))
          else None)"
| "decode_object 0 acc cs = None"
| "decode_object (Suc n) acc cs =
     (if prefix [CHR 0x22] cs then
        (case scan_string [] (tl cs) of
           None \<Rightarrow> None
         | Some (k, r1) \<Rightarrow>
             if prefix '':'' (skip_ws r1) then
               (case decode_value n (skip_ws (tl (skip_ws r1))) of
                  None \<Rightarrow> None
                | Some (v, r2) \<Rightarrow>
                    if prefix ''}'' (skip_ws r2) then Some (JObject (dict_set k v acc), tl (skip_ws r2))
                    else if prefix '','' (skip_ws r2)
                    then decode_object n (dict_set k v acc) (skip_ws (tl (skip_ws r2)))
                    else None)
             else None)
      else None)"

definition json_loads :: decoder where
  "json_loads s =
     (case decode_value (2 * length s + 2) (skip_ws s) of
        None \<Rightarrow> Inl JSONDecodeError
      | Some (v, r) \<Rightarrow> if skip_ws r = [] then Inr v else Inl JSONDecodeError)"


section \<open>Texts for the examples\<close>

text \<open>
  A backslash cannot be written inside a string literal; \<open>escaped_quote\<close> is the two
  characters of a quote escaped inside a JSON string.
\<close>

definition escaped_quote :: string where
  "escaped_quote = [CHR 0x5C, CHR 0x22]"

text \<open>An address of the home page after a login.\<close>

definition home_address :: string where
  "home_address = ''https://mp.weixin.qq.com/cgi-bin/home?t=home/index&lang=zh_CN&token=abc123''"

text \<open>The body of the specification's example, with its keys.\<close>

definition example_body_camel_case :: string where
  \<open>example_body_camel_case =
     ''{"publishPage":{"publishList":[{"appmsgInfo":{"title":"Hello"}},{"publishInfo":"[{''
     @ escaped_quote @ ''title'' @ escaped_quote @ '':'' @ escaped_quote @ ''World'' @ escaped_quote
     @ ''}]"},{"title":"Direct"},{"foo":"bar"}]}}''\<close>

text \<open>The same body with the keys that the code reads.\<close>

definition example_body :: string where
  \<open>example_body =
     ''{"publish_page":{"publish_list":[{"appmsg_info":{"title":"Hello"}},{"publish_info":"[{''
     @ escaped_quote @ ''title'' @ escaped_quote @ '':'' @ escaped_quote @ ''World'' @ escaped_quote
     @ ''}]"},{"title":"Direct"},{"foo":"bar"}]}}''\<close>



text \<open>A \<^verbatim>\<open>publish_info\<close> list with entries that are not dictionaries.\<close>

definition details_text :: string where
  \<open>details_text =
     ''[1, "x", null, ["title"], {"foo": 1}, {"appmsg_info": {"title": "Nested"}}, {"title": "Later"}]''\<close>


text \<open>
  A \<^verbatim>\<open>publish_info\<close> list whose first dictionary with a title has a direct one and one
  under \<^verbatim>\<open>appmsg_info\<close>.
\<close>

definition direct_details_text :: string where
  \<open>direct_details_text =
     ''[true, "title", {"title": ""}, {"title": "First", "appmsg_info": {"title": "Nested"}}, {"title": "Later"}]''\<close>


section \<open>The request of \<^verbatim>\<open>_fetch_and_print_articles\<close>\<close>

text \<open>
  \<^verbatim>\<open>urllib.parse.urlencode\<close> on a dictionary of strings: \<^verbatim>\<open>quote_plus\<close> of each key and
  value, joined by \<open>=\<close> and \<open>&\<close> in the order of the dictionary.
\<close>

definition always_safe :: "char \<Rightarrow> bool" where
  "always_safe c =
     (let n = (of_char c :: nat) in
      (65 \<le> n \<and> n \<le> 90) \<or> (97 \<le> n \<and> n \<le> 122) \<or> (48 \<le> n \<and> n \<le> 57)
      \<or> c = CHR ''_'' \<or> c = CHR ''.'' \<or> c = CHR ''-'' \<or> c = CHR ''~'')"

definition hex_digit :: "nat \<Rightarrow> char" where
  "hex_digit n = ''0123456789ABCDEF'' ! (n mod 16)"

definition quote_byte :: "char \<Rightarrow> string" where
  "quote_byte c =
     (if always_safe c then [c]
      else if c = CHR '' '' then ''+''
      else [CHR ''%'', hex_digit ((of_char c :: nat) div 16), hex_digit ((of_char c :: nat) mod 16)])"

definition quote_plus :: "string \<Rightarrow> string" where
  "quote_plus s = concat (map quote_byte s)"

fun join_amp :: "string list \<Rightarrow> string" where
  "join_amp [] = []"
| "join_amp [x] = x"
| "join_amp (x # y # ys) = x @ ''&'' @ join_amp (y # ys)"

definition urlencode :: "(string \<times> string) list \<Rightarrow> string" where
  "urlencode params = join_amp (map (\<lambda>kv. quote_plus (fst kv) @ ''='' @ quote_plus (snd kv)) params)"

text \<open>Lines 154 to 158 and 163.\<close>

definition articles_url :: string where
  "articles_url = ''https://mp.weixin.qq.com/cgi-bin/appmsgpublish''"

definition article_params :: "string \<Rightarrow> string \<Rightarrow> (string \<times> string) list" where
  "article_params token fakeid =
     [(''action'', ''list_ex''), (''begin'', ''0''), (''count'', ''5''), (''fakeid'', fakeid),
      (''type'', ''101_1''), (''token'', token), (''lang'', ''zh_CN''), (''f'', ''json''),
      (''ajax'', ''1'')]"

definition full_url :: "string \<Rightarrow> string \<Rightarrow> string" where
  "full_url token fakeid = articles_url @ ''?'' @ urlencode (article_params token fakeid)"


section \<open>The browser and \<^verbatim>\<open>fetch_articles_command\<close>\<close>

text \<open>
  The calls into the browser library, in the order a run makes them: \<^verbatim>\<open>uc.start\<close>,
  \<^verbatim>\<open>driver.get\<close> or \<^verbatim>\<open>tab.get\<close>, \<^verbatim>\<open>tab.evaluate\<close>, \<^verbatim>\<open>tab.sleep\<close> and the exit of
  \<^verbatim>\<open>async with\<close>.
\<close>

datatype call = Start | Get string | Evaluate string | Sleep nat | Close

definition body_script :: string where
  "body_script = ''document.body.textContent''"

text \<open>
  What the tab answers during \<^verbatim>\<open>_fetch_and_print_articles\<close>: to \<^verbatim>\<open>tab.get\<close> and to the
  \<^verbatim>\<open>tab.evaluate\<close> of line 168. The answer to the \<^verbatim>\<open>tab.evaluate\<close> of line 219 is only
  logged, or its exception caught, so it is not part of the model; the call is.
\<close>

record tab_answers =
  page_load :: "string \<Rightarrow> unit attempt"
  body_text :: "json attempt"

text \<open>
  Lines 150 to 222. An exception between lines 163 and 214 goes to the handler of line
  216, which logs it and evaluates the body script once more.
\<close>

definition fetch_and_print_articles ::
  "decoder \<Rightarrow> tab_answers \<Rightarrow> string \<Rightarrow> string \<Rightarrow> call list \<times> listing_outcome" where
  "fetch_and_print_articles loads tab token fakeid =
     (case page_load tab (full_url token fakeid) of
        Raises \<Rightarrow>
          ([Get (full_url token fakeid), Evaluate body_script], FetchingError BrowserError [])
      | Returns _ \<Rightarrow>
     (case body_text tab of
        Raises \<Rightarrow>
          ([Get (full_url token fakeid), Evaluate body_script, Evaluate body_script],
           FetchingError BrowserError [])
      | Returns json_text_content \<Rightarrow>
          (case parse_articles loads json_text_content of
             FetchingError e logs \<Rightarrow>
               ([Get (full_url token fakeid), Evaluate body_script, Evaluate body_script],
                FetchingError e logs)
           | outcome \<Rightarrow> ([Get (full_url token fakeid), Evaluate body_script], outcome))))"

text \<open>Truth value of an argument that is a string or \<^verbatim>\<open>None\<close>.\<close>

fun str_truthy :: "string option \<Rightarrow> bool" where
  "str_truthy None = False"
| "str_truthy (Some s) = (s \<noteq> [])"

text \<open>
  What the browser answers during \<^verbatim>\<open>fetch_articles_command\<close>: to \<^verbatim>\<open>uc.start\<close>, to
  \<^verbatim>\<open>driver.get('about:blank')\<close> (it raises, or returns a tab that is truthy or not),
  the tab's answers, and \<^verbatim>\<open>tab.sleep(2)\<close>.
\<close>

record browser_answers =
  browser_start :: "unit attempt"
  blank_tab :: "bool attempt"
  tab_of :: tab_answers
  final_sleep :: "unit attempt"

text \<open>
  The ways \<^verbatim>\<open>fetch_articles_command\<close> ends (it returns \<^verbatim>\<open>None\<close> in each):
  \<^item> \<open>TokenAndFakeidRequired\<close>: line 129, "Token and FakeID are required to fetch articles.";
  \<^item> \<open>NoBrowserTab\<close>: line 141;
  \<^item> \<open>SessionFinished\<close>: line 145, with the outcome of \<^verbatim>\<open>_fetch_and_print_articles\<close>;
  \<^item> \<open>CriticalFetchError\<close>: line 147.
\<close>

datatype command_outcome =
    TokenAndFakeidRequired
  | NoBrowserTab
  | SessionFinished listing_outcome
  | CriticalFetchError

definition fetch_articles_command ::
  "decoder \<Rightarrow> browser_answers \<Rightarrow> string option \<Rightarrow> string option \<Rightarrow> call list \<times> command_outcome" where
  "fetch_articles_command loads browser token fakeid =
     (if \<not> str_truthy token \<or> \<not> str_truthy fakeid then ([], TokenAndFakeidRequired)
      else
        (case browser_start browser of
           Raises \<Rightarrow> ([Start], CriticalFetchError)
         | Returns _ \<Rightarrow>
        (case blank_tab browser of
           Raises \<Rightarrow> ([Start, Get ''about:blank'', Close], CriticalFetchError)
         | Returns False \<Rightarrow> ([Start, Get ''about:blank'', Close], NoBrowserTab)
         | Returns True \<Rightarrow>
             (case fetch_and_print_articles loads (tab_of browser) (the token) (the fakeid) of
                (calls, outcome) \<Rightarrow>
                  (case final_sleep browser of
                     Raises \<Rightarrow>
                       ([Start, Get ''about:blank''] @ calls @ [Sleep 2, Close], CriticalFetchError)
                   | Returns _ \<Rightarrow>
                       ([Start, Get ''about:blank''] @ calls @ [Sleep 2, Close],
                        SessionFinished outcome))))))"


section \<open>\<^verbatim>\<open>do_login_flow\<close>\<close>

subsection \<open>The wait for the login, lines 36 to 58\<close>

definition home_path :: string where
  "home_path = ''mp.weixin.qq.com/cgi-bin/home''"

definition max_login_check_attempts :: nat where
  "max_login_check_attempts = 120"

text \<open>
  The variables of the loop, and \<open>iterations\<close>, the number of times the body has run.
  The \<open>i\<close>-th run of lines 42 and 43 (\<^verbatim>\<open>await tab.sleep(1)\<close>, \<^verbatim>\<open>tab.url\<close>) gives
  \<open>read_url i\<close>: the address, or an exception, which line 51 catches. The handler
  logs, sleeps and changes no variable. The loop may run forever, so it is a partial
  function: \<open>None\<close> is a run that never leaves the loop.
\<close>

record wait_state =
  logged_in :: bool
  login_check_attempts :: nat
  iterations :: nat

definition start_of_wait :: wait_state where
  "start_of_wait = \<lparr>logged_in = False, login_check_attempts = 0, iterations = 0\<rparr>"

partial_function (option) login_wait_loop ::
  "(nat \<Rightarrow> string attempt) \<Rightarrow> nat \<Rightarrow> wait_state \<Rightarrow> wait_state option" where
  "login_wait_loop read_url max_attempts s =
     (if \<not> logged_in s \<and> login_check_attempts s < max_attempts then
        (case read_url (iterations s) of
           Returns current_url \<Rightarrow>
             if contains home_path current_url
             then login_wait_loop read_url max_attempts
                    (s\<lparr>logged_in := True, iterations := Suc (iterations s)\<rparr>)
             else login_wait_loop read_url max_attempts
                    (s\<lparr>login_check_attempts := Suc (login_check_attempts s),
                       iterations := Suc (iterations s)\<rparr>)
         | Raises \<Rightarrow>
             login_wait_loop read_url max_attempts (s\<lparr>iterations := Suc (iterations s)\<rparr>))
      else Some s)"

subsection \<open>The token, lines 63 to 72\<close>

text \<open>
  \<^verbatim>\<open>re.search(r"token=(\w+)", current_url)\<close>: the leftmost \<^verbatim>\<open>token=\<close> that a word
  character follows, and the longest run of word characters after it. On an ASCII
  address a word character is a letter, a digit or the underscore, and \<open>search_token\<close>
  is the search; Python's \<^verbatim>\<open>\w\<close> also matches letters and digits outside ASCII, so the
  statements about the token are for addresses with \<open>is_ascii\<close>.
\<close>

definition is_ascii :: "string \<Rightarrow> bool" where
  "is_ascii s = list_all (\<lambda>c. (of_char c :: nat) < 128) s"

definition is_word_char :: "char \<Rightarrow> bool" where
  "is_word_char c =
     (let n = (of_char c :: nat) in
      (65 \<le> n \<and> n \<le> 90) \<or> (97 \<le> n \<and> n \<le> 122) \<or> (48 \<le> n \<and> n \<le> 57) \<or> c = CHR ''_'')"

fun search_token :: "string \<Rightarrow> string option" where
  "search_token [] = None"
| "search_token (c # cs) =
     (if prefix ''token='' (c # cs) \<and> takeWhile is_word_char (drop 6 (c # cs)) \<noteq> []
      then Some (takeWhile is_word_char (drop 6 (c # cs)))
      else search_token cs)"

subsection \<open>The fakeid, lines 74 to 91\<close>

definition js_scripts_for_fakeid :: "string list" where
  "js_scripts_for_fakeid =
     [''return typeof wx !== 'undefined' && wx.cgiData && wx.cgiData.user_attributes && wx.cgiData.user_attributes.fake_id ? wx.cgiData.user_attributes.fake_id : null;'',
      ''return typeof wx !== 'undefined' && wx.cgiData && wx.cgiData.fake_id ? wx.cgiData.fake_id : null;'',
      ''return typeof wx !== 'undefined' && wx.cgiData && wx.cgiData.appmsgstat && wx.cgiData.appmsgstat.fake_id ? wx.cgiData.appmsgstat.fake_id : null;'']"

text \<open>
  The loop over the scripts. \<open>evaluate\<close> is \<^verbatim>\<open>tab.evaluate\<close> and \<open>py_str\<close> is Python's
  \<^verbatim>\<open>str\<close>, both parameters. The result is the variable \<^verbatim>\<open>fakeid\<close> and the scripts that
  were evaluated, in order.
\<close>

fun fakeid_loop ::
  "(json \<Rightarrow> string) \<Rightarrow> (string \<Rightarrow> json attempt) \<Rightarrow> string list \<Rightarrow> string option \<times> string list" where
  "fakeid_loop py_str evaluate [] = (None, [])"
| "fakeid_loop py_str evaluate (script # rest) =
     (case evaluate script of
        Returns result \<Rightarrow>
          if truthy result then (Some (py_str result), [script])
          else (case fakeid_loop py_str evaluate rest of
                  (fakeid, evaluated) \<Rightarrow> (fakeid, script # evaluated))
      | Raises \<Rightarrow>
          (case fakeid_loop py_str evaluate rest of
             (fakeid, evaluated) \<Rightarrow> (fakeid, script # evaluated)))"

subsection \<open>The nickname, lines 93 to 102\<close>

definition nickname_script :: string where
  "nickname_script =
     ''return typeof wx !== 'undefined' && wx.cgiData && wx.cgiData.nick_name ? wx.cgiData.nick_name : null;''"

definition extract_nickname :: "(string \<Rightarrow> json attempt) \<Rightarrow> json" where
  "extract_nickname evaluate =
     (case evaluate nickname_script of
        Returns nickname_script_result \<Rightarrow>
          if truthy nickname_script_result then nickname_script_result else JNull
      | Raises \<Rightarrow> JNull)"

subsection \<open>The result, lines 104 to 111\<close>

text \<open>The dictionary \<^verbatim>\<open>login_info\<close>; \<open>JNull\<close> is a nickname of \<^verbatim>\<open>None\<close>.\<close>

record login_info =
  info_token :: string
  info_fakeid :: string
  info_nickname :: json

definition compose_login_info :: "string option \<Rightarrow> string option \<Rightarrow> json \<Rightarrow> login_info option" where
  "compose_login_info token fakeid nickname =
     (if str_truthy token \<and> str_truthy fakeid \<and> truthy nickname then
        Some \<lparr>info_token = the token, info_fakeid = the fakeid, info_nickname = nickname\<rparr>
      else if str_truthy token \<and> str_truthy fakeid then
        Some \<lparr>info_token = the token, info_fakeid = the fakeid, info_nickname = JNull\<rparr>
      else None)"

subsection \<open>The whole function\<close>

text \<open>
  What the browser answers during \<^verbatim>\<open>do_login_flow\<close>: to \<^verbatim>\<open>uc.start\<close>, to
  \<^verbatim>\<open>driver.get\<close> of the login page, to the reads of the loop, to \<^verbatim>\<open>tab.url\<close> of line
  61, to \<^verbatim>\<open>tab.evaluate\<close> and to \<^verbatim>\<open>tab.sleep(2)\<close>.
\<close>

record login_answers =
  login_start :: "unit attempt"
  login_page :: "unit attempt"
  url_reads :: "nat \<Rightarrow> string attempt"
  url_after_login :: "string attempt"
  evaluate_answer :: "string \<Rightarrow> json attempt"
  closing_sleep :: "unit attempt"

text \<open>
  The ways \<^verbatim>\<open>do_login_flow\<close> ends:
  \<^item> \<open>NavigationError\<close>: line 33, returns \<^verbatim>\<open>None\<close>;
  \<^item> \<open>LoginTimeout\<close>: line 57, "Login timeout.", returns \<^verbatim>\<open>None\<close>;
  \<^item> \<open>LoginFlowFinished\<close>: line 117, returns \<^verbatim>\<open>login_info\<close>, which is \<^verbatim>\<open>None\<close> after
    line 111, "Essential information (token and/or fakeid) missing after login attempt.";
  \<^item> \<open>CriticalLoginError\<close>: line 120, returns \<^verbatim>\<open>None\<close>.
\<close>

datatype login_outcome =
    NavigationError
  | LoginTimeout
  | LoginFlowFinished "login_info option"
  | CriticalLoginError

definition do_login_flow :: "(json \<Rightarrow> string) \<Rightarrow> login_answers \<Rightarrow> login_outcome option" where
  "do_login_flow py_str browser =
     (case login_start browser of
        Raises \<Rightarrow> Some CriticalLoginError
      | Returns _ \<Rightarrow>
     (case login_page browser of
        Raises \<Rightarrow> Some NavigationError
      | Returns _ \<Rightarrow>
     (case login_wait_loop (url_reads browser) max_login_check_attempts start_of_wait of
        None \<Rightarrow> None
      | Some s \<Rightarrow>
          if \<not> logged_in s then Some LoginTimeout
          else
            (case url_after_login browser of
               Raises \<Rightarrow> Some CriticalLoginError
             | Returns current_url \<Rightarrow>
                 (case closing_sleep browser of
                    Raises \<Rightarrow> Some CriticalLoginError
                  | Returns _ \<Rightarrow>
                      Some (LoginFlowFinished
                        (compose_login_info (search_token current_url)
                           (fst (fakeid_loop py_str (evaluate_answer browser) js_scripts_for_fakeid))
                           (extract_nickname (evaluate_answer browser)))))))))"


subsection \<open>A browser for the examples\<close>

text \<open>
  The login page for three reads and then the home page with a token; the first fakeid
  script raises and the others return a fakeid; the nickname script returns a name.
\<close>

definition answering_browser :: login_answers where
  "answering_browser =
     \<lparr>login_start = Returns (), login_page = Returns (),
      url_reads = (\<lambda>i. if i < 3 then Returns ''https://mp.weixin.qq.com/'' else Returns home_address),
      url_after_login = Returns home_address,
      evaluate_answer = (\<lambda>script. if script = nickname_script then Returns (JString ''Test User'')
                                    else if script = js_scripts_for_fakeid ! 0 then Raises
                                    else Returns (JString ''fakeid_12345'')),
      closing_sleep = Returns ()\<rparr>"


section \<open>The wait for the login\<close>

text \<open>
  A run that leaves the loop started in a state where the loop condition is false, when
  every read raises: the handler of line 51 does not count the iteration.
\<close>

lemma login_wait_loop_failed_reads:
  assumes "login_wait_loop read_url m s = Some r"
  shows "(\<forall>i. read_url i = Raises) \<longrightarrow> logged_in s \<or> \<not> login_check_attempts s < m"
proof (rule login_wait_loop.raw_induct
    [where P = "\<lambda>read_url m s r.
       (\<forall>i. read_url i = Raises) \<longrightarrow> logged_in s \<or> \<not> login_check_attempts s < m",
     OF _ assms], goal_cases)
  case (1 loop read_url m s r)
  show ?case
  proof (intro impI)
    assume all: "\<forall>i. read_url i = Raises"
    show "logged_in s \<or> \<not> login_check_attempts s < m"
    proof (rule ccontr)
      assume "\<not> (logged_in s \<or> \<not> login_check_attempts s < m)"
      then have run: "\<not> logged_in s" "login_check_attempts s < m"
        by auto
      with 1(2) all have "loop read_url m (s\<lparr>iterations := Suc (iterations s)\<rparr>) = Some r"
        by simp
      from 1(1)[OF this] all run show False
        by simp
    qed
  qed
qed

text \<open>
  When no read raises, the loop returns after at most \<open>m - login_check_attempts s\<close> runs
  of its body, logged in or with the attempts used up.
\<close>

lemma login_wait_loop_returns_without_failed_reads:
  assumes ok: "\<forall>i. read_url i \<noteq> Raises"
  shows "\<exists>r. login_wait_loop read_url m s = Some r
           \<and> iterations r \<le> iterations s + (m - login_check_attempts s)
           \<and> (logged_in r \<or> m \<le> login_check_attempts r)"
proof (induction "m - login_check_attempts s" arbitrary: s)
  case 0
  then have "\<not> login_check_attempts s < m" by simp
  then have "login_wait_loop read_url m s = Some s"
    by (simp add: login_wait_loop.simps)
  with 0 show ?case by simp
next
  case (Suc k)
  show ?case
  proof (cases "logged_in s")
    case True
    then have "login_wait_loop read_url m s = Some s"
      by (simp add: login_wait_loop.simps)
    with True show ?thesis by simp
  next
    case False
    from Suc(2) have lt: "login_check_attempts s < m" by simp
    from ok obtain u where u: "read_url (iterations s) = Returns u"
      by (cases "read_url (iterations s)") auto
    show ?thesis
    proof (cases "contains home_path u")
      case True
      let ?s = "s\<lparr>logged_in := True, iterations := Suc (iterations s)\<rparr>"
      have "login_wait_loop read_url m ?s = Some ?s"
        by (simp add: login_wait_loop.simps)
      with False lt u True have "login_wait_loop read_url m s = Some ?s"
        by (subst login_wait_loop.simps) simp
      with lt show ?thesis by simp
    next
      case no: False
      let ?s = "s\<lparr>login_check_attempts := Suc (login_check_attempts s),
                   iterations := Suc (iterations s)\<rparr>"
      from Suc(2) have "k = m - login_check_attempts ?s" by simp
      from Suc(1)[OF this] obtain r where r: "login_wait_loop read_url m ?s = Some r"
        "iterations r \<le> iterations ?s + (m - login_check_attempts ?s)"
        "logged_in r \<or> m \<le> login_check_attempts r"
        by blast
      from False lt u no have "login_wait_loop read_url m s = login_wait_loop read_url m ?s"
        by (subst login_wait_loop.simps) simp
      with r lt show ?thesis by simp
    qed
  qed
qed

text \<open>
  Claim C1: for every bound on the attempts and every sequence of answers of the browser,
  reads that raise included, the loop of \<^verbatim>\<open>do_login_flow\<close> runs its body at most that
  many times and returns, logged in or with a timeout.

  The code does not do this. Line 48 counts an attempt only when the address was read
  and does not match; an iteration whose read raises goes to line 51 and leaves
  \<^verbatim>\<open>login_check_attempts\<close> as it is. With the bound 120 of line 38 and a browser whose
  every read raises, the loop never returns, and neither does \<^verbatim>\<open>do_login_flow\<close>. With
  the bound 2 and one read that raises, the body runs 3 times.
\<close>

theorem login_wait_loop_not_bounded:
  "login_wait_loop (\<lambda>i. Raises) max_login_check_attempts start_of_wait = None
   \<and> login_wait_loop (\<lambda>i. if i = 0 then Raises else Returns ''https://mp.weixin.qq.com/'') 2
       start_of_wait
     = Some \<lparr>logged_in = False, login_check_attempts = 2, iterations = 3\<rparr>
   \<and> do_login_flow py_str
       \<lparr>login_start = Returns (), login_page = Returns (), url_reads = (\<lambda>i. Raises),
        url_after_login = Returns ''https://mp.weixin.qq.com/'',
        evaluate_answer = (\<lambda>script. Returns JNull), closing_sleep = Returns ()\<rparr> = None"
proof -
  have a: "login_wait_loop (\<lambda>i. Raises) max_login_check_attempts start_of_wait = None"
  proof (cases "login_wait_loop (\<lambda>i. Raises) max_login_check_attempts start_of_wait")
    case None
    then show ?thesis .
  next
    case (Some r)
    from login_wait_loop_failed_reads[OF this] show ?thesis
      by (simp add: start_of_wait_def max_login_check_attempts_def)
  qed
  have b: "login_wait_loop (\<lambda>i. if i = 0 then Raises else Returns ''https://mp.weixin.qq.com/'') 2
       start_of_wait
     = Some \<lparr>logged_in = False, login_check_attempts = 2, iterations = 3\<rparr>"
    by (simp add: login_wait_loop.simps start_of_wait_def home_path_def)
  from a have c: "do_login_flow py_str
       \<lparr>login_start = Returns (), login_page = Returns (), url_reads = (\<lambda>i. Raises),
        url_after_login = Returns ''https://mp.weixin.qq.com/'',
        evaluate_answer = (\<lambda>script. Returns JNull), closing_sleep = Returns ()\<rparr> = None"
    by (simp add: do_login_flow_def)
  from a b c show ?thesis by simp
qed



section \<open>The fakeid probes\<close>

text \<open>
  Scripts that raise or return a value that is not truthy are evaluated and passed over.
\<close>

lemma fakeid_loop_skips:
  assumes "\<forall>p \<in> set before. evaluate p = Raises \<or> (\<exists>r. evaluate p = Returns r \<and> \<not> truthy r)"
  shows "fakeid_loop py_str evaluate (before @ rest) =
           (fst (fakeid_loop py_str evaluate rest), before @ snd (fakeid_loop py_str evaluate rest))"
  using assms
proof (induction before)
  case Nil
  then show ?case by simp
next
  case (Cons p ps)
  then have ih: "fakeid_loop py_str evaluate (ps @ rest) =
      (fst (fakeid_loop py_str evaluate rest), ps @ snd (fakeid_loop py_str evaluate rest))"
    by simp
  from Cons.prems have "evaluate p = Raises \<or> (\<exists>r. evaluate p = Returns r \<and> \<not> truthy r)"
    by simp
  then show ?case
    using ih by (auto split: attempt.splits)
qed

text \<open>
  Claim C9: in a list of scripts where \<open>script\<close> is the first whose evaluation returns
  a truthy result, that result (through \<^verbatim>\<open>str\<close>) is the fakeid, and the scripts after
  it are not evaluated: the scripts evaluated are the ones before it and \<open>script\<close>
  itself. A script before it may raise; line 87 catches the exception and the loop goes
  on to the next script.
\<close>

theorem first_truthy_probe_wins:
  assumes "\<forall>p \<in> set before. evaluate p = Raises \<or> (\<exists>r. evaluate p = Returns r \<and> \<not> truthy r)"
    and "evaluate script = Returns result" and "truthy result"
  shows "fakeid_loop py_str evaluate (before @ script # after) =
           (Some (py_str result), before @ [script])"
  using fakeid_loop_skips[OF assms(1), of py_str "script # after"] assms(2,3)
  by simp

text \<open>
  Five scripts: the first raises, the second and third return \<^verbatim>\<open>None\<close>, the fourth
  returns a fakeid, and the fifth, which would return another one, is not evaluated.
\<close>

theorem first_truthy_probe_wins_witness:
  "fakeid_loop (\<lambda>v. case v of JString s \<Rightarrow> s | _ \<Rightarrow> [])
     (\<lambda>script. if script = ''p1'' then Raises
                else if script = ''p4'' then Returns (JString ''fakeid_12345'')
                else if script = ''p5'' then Returns (JString ''other'')
                else Returns JNull)
     [''p1'', ''p2'', ''p3'', ''p4'', ''p5'']
   = (Some ''fakeid_12345'', [''p1'', ''p2'', ''p3'', ''p4''])"
proof -
  have "fakeid_loop (\<lambda>v. case v of JString s \<Rightarrow> s | _ \<Rightarrow> [])
     (\<lambda>script. if script = ''p1'' then Raises
                else if script = ''p4'' then Returns (JString ''fakeid_12345'')
                else if script = ''p5'' then Returns (JString ''other'')
                else Returns JNull)
     ([''p1'', ''p2'', ''p3''] @ ''p4'' # [''p5''])
   = (Some (case JString ''fakeid_12345'' of JString s \<Rightarrow> s | _ \<Rightarrow> []),
      [''p1'', ''p2'', ''p3''] @ [''p4''])"
    by (rule first_truthy_probe_wins) simp_all
  then show ?thesis
    by simp
qed


section \<open>The composition of \<^verbatim>\<open>login_info\<close>\<close>

text \<open>
  Claim C3 as stated, that a login in which exactly one of the token and the fakeid was
  recovered still returns the partial credentials, fails: with a token and no fakeid,
  and with a fakeid and no token, \<^verbatim>\<open>login_info\<close> stays \<^verbatim>\<open>None\<close>. So does a whole run of
  \<^verbatim>\<open>do_login_flow\<close> whose address carries a token while every script returns \<^verbatim>\<open>None\<close>.
\<close>

theorem partial_credentials_counterexample:
  "compose_login_info (Some ''abc123'') None (JString ''Name'') = None
   \<and> compose_login_info None (Some ''fid'') JNull = None
   \<and> do_login_flow (\<lambda>v. [])
       \<lparr>login_start = Returns (), login_page = Returns (),
        url_reads = (\<lambda>i. Returns ''https://mp.weixin.qq.com/cgi-bin/home?t=home/index&token=abc123''),
        url_after_login = Returns ''https://mp.weixin.qq.com/cgi-bin/home?t=home/index&token=abc123'',
        evaluate_answer = (\<lambda>script. Returns JNull), closing_sleep = Returns ()\<rparr>
     = Some (LoginFlowFinished None)"
  by (simp add: compose_login_info_def do_login_flow_def login_wait_loop.simps start_of_wait_def
      max_login_check_attempts_def home_path_def js_scripts_for_fakeid_def extract_nickname_def
      is_word_char_def)

text \<open>A token that the search finds is not empty.\<close>

lemma search_token_not_empty: "search_token url = Some t \<Longrightarrow> t \<noteq> []"
  by (induction url) (auto split: if_splits)

text \<open>
  Claim C3, amended: in a run of \<^verbatim>\<open>do_login_flow\<close> that leaves the wait logged in, reads
  an (ASCII) address at line 61 and whose \<^verbatim>\<open>tab.sleep(2)\<close> of line 114 does not raise,
  \<^verbatim>\<open>login_info\<close> is returned exactly when both the token and the fakeid were recovered:
  when the address has a token and the scripts gave a non-empty fakeid, the function
  returns that token, that fakeid and the nickname, which is the truthy result of the
  nickname script or \<^verbatim>\<open>None\<close>; when the token is missing, or the fakeid is, or both are,
  line 111 logs that essential information is missing and the function returns
  \<^verbatim>\<open>None\<close>.
\<close>

theorem login_info_when_both_found:
  assumes "login_start browser = Returns ()" and "login_page browser = Returns ()"
    and "login_wait_loop (url_reads browser) max_login_check_attempts start_of_wait = Some s"
    and "logged_in s"
    and "url_after_login browser = Returns current_url" and "is_ascii current_url"
    and "closing_sleep browser = Returns ()"
  shows "(\<forall>t f. search_token current_url = Some t
            \<and> fst (fakeid_loop py_str (evaluate_answer browser) js_scripts_for_fakeid) = Some f
            \<and> f \<noteq> []
          \<longrightarrow> do_login_flow py_str browser =
                Some (LoginFlowFinished (Some
                  \<lparr>info_token = t, info_fakeid = f,
                   info_nickname =
                     (case evaluate_answer browser nickname_script of
                        Returns v \<Rightarrow> if truthy v then v else JNull
                      | Raises \<Rightarrow> JNull)\<rparr>)))
     \<and> (search_token current_url = None
          \<or> fst (fakeid_loop py_str (evaluate_answer browser) js_scripts_for_fakeid) = None
          \<or> fst (fakeid_loop py_str (evaluate_answer browser) js_scripts_for_fakeid) = Some []
        \<longrightarrow> do_login_flow py_str browser = Some (LoginFlowFinished None))"
proof -
  have flow: "do_login_flow py_str browser =
      Some (LoginFlowFinished
        (compose_login_info (search_token current_url)
           (fst (fakeid_loop py_str (evaluate_answer browser) js_scripts_for_fakeid))
           (extract_nickname (evaluate_answer browser))))"
    using assms(1-5,7) by (simp add: do_login_flow_def)
  have found: "\<forall>t f. search_token current_url = Some t
            \<and> fst (fakeid_loop py_str (evaluate_answer browser) js_scripts_for_fakeid) = Some f
            \<and> f \<noteq> []
          \<longrightarrow> do_login_flow py_str browser =
                Some (LoginFlowFinished (Some
                  \<lparr>info_token = t, info_fakeid = f,
                   info_nickname =
                     (case evaluate_answer browser nickname_script of
                        Returns v \<Rightarrow> if truthy v then v else JNull
                      | Raises \<Rightarrow> JNull)\<rparr>))"
  proof (intro allI impI, elim conjE)
    fix t f
    assume t: "search_token current_url = Some t"
      and f: "fst (fakeid_loop py_str (evaluate_answer browser) js_scripts_for_fakeid) = Some f"
      and ne: "f \<noteq> []"
    from search_token_not_empty[OF t] have "t \<noteq> []" .
    with t f ne flow show "do_login_flow py_str browser =
                Some (LoginFlowFinished (Some
                  \<lparr>info_token = t, info_fakeid = f,
                   info_nickname =
                     (case evaluate_answer browser nickname_script of
                        Returns v \<Rightarrow> if truthy v then v else JNull
                      | Raises \<Rightarrow> JNull)\<rparr>))"
      by (auto simp: compose_login_info_def extract_nickname_def split: attempt.splits)
  qed
  have missing: "search_token current_url = None
          \<or> fst (fakeid_loop py_str (evaluate_answer browser) js_scripts_for_fakeid) = None
          \<or> fst (fakeid_loop py_str (evaluate_answer browser) js_scripts_for_fakeid) = Some []
        \<longrightarrow> do_login_flow py_str browser = Some (LoginFlowFinished None)"
    using flow by (auto simp: compose_login_info_def)
  from found missing show ?thesis by blast
qed

text \<open>The browser of the examples: its wait, and what is found in it.\<close>

lemma answering_browser_wait:
  "login_wait_loop (url_reads answering_browser) max_login_check_attempts start_of_wait
     = Some \<lparr>logged_in = True, login_check_attempts = 3, iterations = 4\<rparr>"
  by (simp add: answering_browser_def login_wait_loop.simps start_of_wait_def
      max_login_check_attempts_def home_path_def home_address_def)

lemma answering_browser_finds:
  "search_token home_address = Some ''abc123''"
  "fst (fakeid_loop (\<lambda>v. case v of JString s \<Rightarrow> s | _ \<Rightarrow> []) (evaluate_answer answering_browser)
     js_scripts_for_fakeid) = Some ''fakeid_12345''"
  "is_ascii home_address"
  "evaluate_answer answering_browser nickname_script = Returns (JString ''Test User'')"
  by (simp_all add: answering_browser_def home_address_def is_word_char_def is_ascii_def
      js_scripts_for_fakeid_def nickname_script_def)

text \<open>
  The browser of the examples gives the token of its address, the fakeid of the second
  script and the name; the same browser with scripts that all return \<^verbatim>\<open>None\<close> has a
  token and no fakeid, and gives nothing.
\<close>

theorem login_info_when_both_found_witness:
  "do_login_flow (\<lambda>v. case v of JString s \<Rightarrow> s | _ \<Rightarrow> []) answering_browser
     = Some (LoginFlowFinished (Some
         \<lparr>info_token = ''abc123'', info_fakeid = ''fakeid_12345'',
          info_nickname = JString ''Test User''\<rparr>))
   \<and> do_login_flow (\<lambda>v. case v of JString s \<Rightarrow> s | _ \<Rightarrow> [])
       (answering_browser\<lparr>evaluate_answer := (\<lambda>script. Returns JNull)\<rparr>)
     = Some (LoginFlowFinished None)"
proof -
  let ?str = "\<lambda>v. case v of JString s \<Rightarrow> s | _ \<Rightarrow> []"
  have b: "login_start answering_browser = Returns ()" "login_page answering_browser = Returns ()"
    "url_after_login answering_browser = Returns home_address"
    "closing_sleep answering_browser = Returns ()"
    by (simp_all add: answering_browser_def)
  have l: "logged_in \<lparr>logged_in = True, login_check_attempts = 3, iterations = 4\<rparr>"
    by simp
  from login_info_when_both_found[of answering_browser _ home_address ?str,
      OF b(1,2) answering_browser_wait l b(3) answering_browser_finds(3) b(4)]
    answering_browser_finds(1,2,4)
  have 1: "do_login_flow ?str answering_browser
     = Some (LoginFlowFinished (Some
         \<lparr>info_token = ''abc123'', info_fakeid = ''fakeid_12345'',
          info_nickname = JString ''Test User''\<rparr>))"
    by simp
  let ?quiet = "answering_browser\<lparr>evaluate_answer := (\<lambda>script. Returns JNull)\<rparr>"
  have q: "login_start ?quiet = Returns ()" "login_page ?quiet = Returns ()"
    "url_after_login ?quiet = Returns home_address" "closing_sleep ?quiet = Returns ()"
    by (simp_all add: answering_browser_def)
  have w: "login_wait_loop (url_reads ?quiet) max_login_check_attempts start_of_wait
     = Some \<lparr>logged_in = True, login_check_attempts = 3, iterations = 4\<rparr>"
    using answering_browser_wait by simp
  have n: "fst (fakeid_loop ?str (evaluate_answer ?quiet) js_scripts_for_fakeid) = None"
    by (simp add: js_scripts_for_fakeid_def)
  from login_info_when_both_found[of ?quiet _ home_address ?str,
      OF q(1,2) w l q(3) answering_browser_finds(3) q(4)] n
  have 2: "do_login_flow ?str ?quiet = Some (LoginFlowFinished None)"
    by simp
  from 1 2 show ?thesis by simp
qed


section \<open>The request\<close>

text \<open>
  Claim C4 as stated, that the request is built from the parameter set
  \<open>action=list\<close>, \<open>begin=page*pageSize\<close>, \<open>count=pageSize\<close> and so on, fails on the
  action: its value is \<open>list_ex\<close>, and the address has no parameter \<open>action=list\<close>.
\<close>

theorem action_parameter_counterexample:
  "map_of (article_params ''abc123'' ''fid'') ''action'' \<noteq> Some ''list''
   \<and> \<not> contains ''action=list&'' (full_url ''abc123'' ''fid'')"
  by (simp add: article_params_def full_url_def articles_url_def urlencode_def quote_plus_def
      quote_byte_def always_safe_def)

text \<open>The keys and the fixed values are left as they are by \<^verbatim>\<open>quote_plus\<close>.\<close>

lemma quote_plus_keys:
  "quote_plus ''action'' = ''action''" "quote_plus ''list_ex'' = ''list_ex''"
  "quote_plus ''begin'' = ''begin''" "quote_plus ''0'' = ''0''"
  "quote_plus ''count'' = ''count''" "quote_plus ''5'' = ''5''"
  "quote_plus ''fakeid'' = ''fakeid''" "quote_plus ''type'' = ''type''"
  "quote_plus ''101_1'' = ''101_1''" "quote_plus ''token'' = ''token''"
  "quote_plus ''lang'' = ''lang''" "quote_plus ''zh_CN'' = ''zh_CN''"
  "quote_plus ''f'' = ''f''" "quote_plus ''json'' = ''json''"
  "quote_plus ''ajax'' = ''ajax''" "quote_plus ''1'' = ''1''"
  by (simp_all add: quote_plus_def quote_byte_def always_safe_def)

text \<open>
  Claim C4, amended: for every token and fakeid the address is the base address,
  \<open>?\<close>, and the nine parameters \<open>action=list_ex\<close>, \<open>begin=0\<close>, \<open>count=5\<close>,
  \<open>fakeid\<close>, \<open>type=101_1\<close>, \<open>token\<close>, \<open>lang=zh_CN\<close>, \<open>f=json\<close>, \<open>ajax=1\<close> in this
  order, where \<open>begin\<close> and \<open>count\<close> are constants (the function has no page and no
  page size) and the fakeid and the token are percent-encoded; and the first call of
  \<^verbatim>\<open>_fetch_and_print_articles\<close> into the browser is \<^verbatim>\<open>tab.get\<close> of this address.
\<close>

theorem full_url_fixed_parameters:
  "full_url token fakeid =
     ''https://mp.weixin.qq.com/cgi-bin/appmsgpublish?action=list_ex&begin=0&count=5&fakeid=''
       @ quote_plus fakeid @ ''&type=101_1&token='' @ quote_plus token
       @ ''&lang=zh_CN&f=json&ajax=1''
   \<and> hd (fst (fetch_and_print_articles loads tab token fakeid)) = Get (full_url token fakeid)"
proof -
  have a: "full_url token fakeid =
     ''https://mp.weixin.qq.com/cgi-bin/appmsgpublish?action=list_ex&begin=0&count=5&fakeid=''
       @ quote_plus fakeid @ ''&type=101_1&token='' @ quote_plus token
       @ ''&lang=zh_CN&f=json&ajax=1''"
    by (simp add: full_url_def articles_url_def urlencode_def article_params_def quote_plus_keys)
  have b: "hd (fst (fetch_and_print_articles loads tab token fakeid)) = Get (full_url token fakeid)"
    by (simp add: fetch_and_print_articles_def split: attempt.splits listing_outcome.splits)
  from a b show ?thesis by simp
qed

text \<open>A token with a space and a fakeid with \<open>/\<close> and \<open>=\<close>.\<close>

theorem full_url_fixed_parameters_witness:
  "full_url ''abc 123'' ''Mz/A=='' =
     ''https://mp.weixin.qq.com/cgi-bin/appmsgpublish?action=list_ex&begin=0&count=5&fakeid=Mz%2FA%3D%3D&type=101_1&token=abc+123&lang=zh_CN&f=json&ajax=1''"
  using full_url_fixed_parameters[of "''abc 123''" "''Mz/A==''"]
  by (simp add: quote_plus_def quote_byte_def always_safe_def hex_digit_def)


section \<open>The guard of \<^verbatim>\<open>fetch_articles_command\<close>\<close>

text \<open>
  Claim C8: when the token or the fakeid is missing (\<^verbatim>\<open>None\<close> or empty),
  \<^verbatim>\<open>fetch_articles_command\<close> logs the error of line 129 and returns before any call into
  the browser: no \<^verbatim>\<open>uc.start\<close>, no \<^verbatim>\<open>get\<close>.
\<close>

theorem fetch_without_credentials:
  assumes "\<not> str_truthy token \<or> \<not> str_truthy fakeid"
  shows "fetch_articles_command loads browser token fakeid = ([], TokenAndFakeidRequired)"
  using assms by (simp add: fetch_articles_command_def)

text \<open>A token and no fakeid, with a browser that would answer every call.\<close>

theorem fetch_without_credentials_witness:
  "fetch_articles_command json_loads
     \<lparr>browser_start = Returns (), blank_tab = Returns True,
      tab_of = \<lparr>page_load = (\<lambda>u. Returns ()), body_text = Returns (JString ''{}'')\<rparr>,
      final_sleep = Returns ()\<rparr>
     (Some ''abc123'') None = ([], TokenAndFakeidRequired)"
  using fetch_without_credentials[of "Some ''abc123''" None json_loads]
  by simp


section \<open>The conditions of the rules\<close>

text \<open>
  When line 190 is false and raises nothing, its value is not truthy, and the item goes
  to \<^verbatim>\<open>publish_info\<close> or to the direct title.
\<close>

lemma appmsg_info_title_no_title:
  assumes "no_appmsg_info_title kvs"
  shows "\<exists>n. appmsg_info_title (dict_get kvs ''appmsg_info'' JNull) = Inr n \<and> \<not> truthy n"
  using assms
  by (auto simp: no_appmsg_info_title_def appmsg_info_title_def dict_get_def
      split: option.splits json.splits)

lemma article_title_publish_info:
  assumes "no_appmsg_info_title kvs" and "truthy (dict_get kvs ''publish_info'' JNull)"
  shows "article_title loads (JObject kvs)
           = title_from_publish_info loads (dict_get kvs ''publish_info'' JNull)"
proof -
  from appmsg_info_title_no_title[OF assms(1)] obtain n
    where "appmsg_info_title (dict_get kvs ''appmsg_info'' JNull) = Inr n" and "\<not> truthy n"
    by blast
  with assms(2) show ?thesis
    by (simp add: article_title_def)
qed


text \<open>An item that reaches the scan with a text that decodes to a list.\<close>

lemma article_title_scan:
  assumes "no_appmsg_info_title kvs" and "map_of kvs ''publish_info'' = Some (JString s)"
    and "s \<noteq> []" and "loads s = Inr (JArray ds)"
  shows "article_title loads (JObject kvs) = scan_article_details ds"
  using article_title_publish_info[OF assms(1), of loads] assms(2-4)
  by (simp add: dict_get_def title_from_publish_info_def)

text \<open>The scan passes over the entries without a title and stops at the first with one.\<close>

lemma no_title_entry_passed:
  assumes "no_title_entry x"
  shows "article_detail_title x = Inr None"
proof (cases x)
  case (JObject kvs)
  with assms show ?thesis
    by (auto simp: dict_get_def split: option.splits json.splits)
qed simp_all

lemma scan_passes_over:
  assumes "\<forall>x \<in> set before. no_title_entry x"
  shows "scan_article_details (before @ rest) = scan_article_details rest"
  using assms by (induction before) (simp_all add: no_title_entry_passed)

lemma scan_direct_title:
  assumes "\<forall>x \<in> set before. no_title_entry x" and "map_of d ''title'' = Some t" and "truthy t"
  shows "scan_article_details (before @ JObject d # after) = Inr (FromPublishInfoList t)"
  using assms(2,3) by (simp add: scan_passes_over[OF assms(1)] dict_get_def)

lemma scan_nested_title:
  assumes "\<forall>x \<in> set before. no_title_entry x" and "\<not> truthy (dict_get d ''title'' JNull)"
    and "map_of d ''appmsg_info'' = Some (JObject a)" and "map_of a ''title'' = Some t" and "truthy t"
  shows "scan_article_details (before @ JObject d # after) = Inr (FromPublishInfoAppmsgInfo t)"
  using assms(2-5) by (simp add: scan_passes_over[OF assms(1)] dict_get_def)

lemma scan_no_title:
  assumes "\<forall>x \<in> set ds. no_title_entry x"
  shows "scan_article_details ds = Inr TitleNotFoundInPublishInfo"
  using scan_passes_over[OF assms, of "[]"] by simp

text \<open>The entries that are not dictionaries can be left out of the list.\<close>

lemma scan_skips_non_dicts: "scan_article_details (filter is_dict ds) = scan_article_details ds"
proof (induction ds)
  case Nil
  then show ?case by simp
next
  case (Cons d ds)
  then show ?case by (cases d) (simp_all split: sum.splits option.splits)
qed

lemma not_dict_no_title: "\<not> is_dict x \<Longrightarrow> no_title_entry x"
  by (cases x) simp_all


section \<open>The title of one item\<close>






section \<open>The scan of \<^verbatim>\<open>publish_info\<close>\<close>

text \<open>
  Claim C10 as stated, that the title is taken from the first entry that is a dictionary
  carrying a title, fails when a dictionary before it has a value under \<^verbatim>\<open>appmsg_info\<close>
  that is not a dictionary: line 202 raises \<^verbatim>\<open>AttributeError\<close>, which line 208 does not
  catch.
\<close>

theorem publish_info_scan_counterexample:
  \<open>article_title json_loads
     (JObject [(''publish_info'', JString ''[{"appmsg_info": null}, {"title": "T"}]'')])
   = Inl AttributeError\<close>
  by code_simp

text \<open>
  Claim C10, amended: for an item that reaches the scan (line 190 is false and raises
  nothing) with a non-empty \<^verbatim>\<open>publish_info\<close> string that decodes to a list, the entries
  that are not dictionaries are skipped: the item gets what an item gets whose list is
  the same without them, so they supply no title and raise nothing, and a list of such
  entries only has no title. The title is taken from the first entry that is a
  dictionary carrying a truthy direct \<^verbatim>\<open>title\<close>, or else a truthy \<^verbatim>\<open>title\<close> in a
  dictionary under \<^verbatim>\<open>appmsg_info\<close>, provided each entry before it is not a dictionary
  or is a dictionary without a title that has nothing under \<^verbatim>\<open>appmsg_info\<close> or a
  dictionary without a title there.
\<close>

theorem publish_info_non_dicts_skipped:
  assumes "no_appmsg_info_title kvs" and "map_of kvs ''publish_info'' = Some (JString s)"
    and "s \<noteq> []" and "loads s = Inr (JArray ds)"
  shows "(\<forall>kvs' s'. no_appmsg_info_title kvs' \<and> map_of kvs' ''publish_info'' = Some (JString s')
            \<and> s' \<noteq> [] \<and> loads s' = Inr (JArray (filter is_dict ds))
          \<longrightarrow> article_title loads (JObject kvs) = article_title loads (JObject kvs'))
    \<and> ((\<forall>x \<in> set ds. \<not> is_dict x)
         \<longrightarrow> article_title loads (JObject kvs) = Inr TitleNotFoundInPublishInfo)
    \<and> (\<forall>before d after t.
          ds = before @ JObject d # after \<and> (\<forall>x \<in> set before. no_title_entry x)
          \<and> map_of d ''title'' = Some t \<and> truthy t
         \<longrightarrow> article_title loads (JObject kvs) = Inr (FromPublishInfoList t))
    \<and> (\<forall>before d after a t.
          ds = before @ JObject d # after \<and> (\<forall>x \<in> set before. no_title_entry x)
          \<and> \<not> truthy (dict_get d ''title'' JNull)
          \<and> map_of d ''appmsg_info'' = Some (JObject a) \<and> map_of a ''title'' = Some t \<and> truthy t
         \<longrightarrow> article_title loads (JObject kvs) = Inr (FromPublishInfoAppmsgInfo t))"
proof -
  have eq: "article_title loads (JObject kvs) = scan_article_details ds"
    using article_title_scan[of kvs s loads, OF assms] .
  have a: "\<forall>kvs' s'. no_appmsg_info_title kvs' \<and> map_of kvs' ''publish_info'' = Some (JString s')
            \<and> s' \<noteq> [] \<and> loads s' = Inr (JArray (filter is_dict ds))
          \<longrightarrow> article_title loads (JObject kvs) = article_title loads (JObject kvs')"
  proof (intro allI impI, elim conjE)
    fix kvs' s'
    assume h: "no_appmsg_info_title kvs'" "map_of kvs' ''publish_info'' = Some (JString s')"
      "s' \<noteq> []" "loads s' = Inr (JArray (filter is_dict ds))"
    have "article_title loads (JObject kvs') = scan_article_details (filter is_dict ds)"
      using article_title_scan[of kvs' s' loads, OF h] .
    with eq show "article_title loads (JObject kvs) = article_title loads (JObject kvs')"
      by (simp add: scan_skips_non_dicts)
  qed
  have b: "(\<forall>x \<in> set ds. \<not> is_dict x)
         \<longrightarrow> article_title loads (JObject kvs) = Inr TitleNotFoundInPublishInfo"
  proof
    assume "\<forall>x \<in> set ds. \<not> is_dict x"
    then have "\<forall>x \<in> set ds. no_title_entry x"
      using not_dict_no_title by blast
    with eq show "article_title loads (JObject kvs) = Inr TitleNotFoundInPublishInfo"
      by (simp add: scan_no_title)
  qed
  have c: "\<forall>before d after t.
          ds = before @ JObject d # after \<and> (\<forall>x \<in> set before. no_title_entry x)
          \<and> map_of d ''title'' = Some t \<and> truthy t
         \<longrightarrow> article_title loads (JObject kvs) = Inr (FromPublishInfoList t)"
    using eq scan_direct_title by auto
  have d: "\<forall>before d after a t.
          ds = before @ JObject d # after \<and> (\<forall>x \<in> set before. no_title_entry x)
          \<and> \<not> truthy (dict_get d ''title'' JNull)
          \<and> map_of d ''appmsg_info'' = Some (JObject a) \<and> map_of a ''title'' = Some t \<and> truthy t
         \<longrightarrow> article_title loads (JObject kvs) = Inr (FromPublishInfoAppmsgInfo t)"
    using eq scan_nested_title by auto
  from a b c d show ?thesis by blast
qed

text \<open>The decoder on the two texts of the examples.\<close>

lemma details_text_loads:
  "json_loads details_text =
     Inr (JArray [JInt 1, JString ''x'', JNull, JArray [JString ''title''], JObject [(''foo'', JInt 1)],
                  JObject [(''appmsg_info'', JObject [(''title'', JString ''Nested'')])],
                  JObject [(''title'', JString ''Later'')]])"
  unfolding details_text_def by code_simp

lemma direct_details_text_loads:
  "json_loads direct_details_text =
     Inr (JArray [JBool True, JString ''title'', JObject [(''title'', JString '''')],
                  JObject [(''title'', JString ''First''),
                           (''appmsg_info'', JObject [(''title'', JString ''Nested'')])],
                  JObject [(''title'', JString ''Later'')]])"
  unfolding direct_details_text_def by code_simp

text \<open>
  A number, a string, \<^verbatim>\<open>null\<close>, a list and a dictionary without a title come before the
  dictionary with a title under \<^verbatim>\<open>appmsg_info\<close>. A boolean, a string and a dictionary
  with an empty title come before the dictionary with a direct title, which is taken
  and not the one under its \<^verbatim>\<open>appmsg_info\<close>. A later title is not used.
\<close>

theorem publish_info_non_dicts_skipped_witness:
  "article_title json_loads (JObject [(''publish_info'', JString details_text)])
     = Inr (FromPublishInfoAppmsgInfo (JString ''Nested''))
   \<and> article_title json_loads (JObject [(''publish_info'', JString direct_details_text)])
     = Inr (FromPublishInfoList (JString ''First''))"
proof -
  have nested: "article_title json_loads (JObject [(''publish_info'', JString details_text)])
     = Inr (FromPublishInfoAppmsgInfo (JString ''Nested''))"
  proof -
    let ?before = "[JInt 1, JString ''x'', JNull, JArray [JString ''title''], JObject [(''foo'', JInt 1)]]"
    let ?d = "[(''appmsg_info'', JObject [(''title'', JString ''Nested'')])]"
    let ?after = "[JObject [(''title'', JString ''Later'')]]"
    let ?kvs = "[(''publish_info'', JString details_text)]"
    have i1: "no_appmsg_info_title ?kvs"
      by (simp add: no_appmsg_info_title_def)
    have i2: "map_of ?kvs ''publish_info'' = Some (JString details_text)"
      by simp
    have i3: "details_text \<noteq> []"
      by (simp add: details_text_def)
    from details_text_loads
    have i4: "json_loads details_text = Inr (JArray (?before @ JObject ?d # ?after))"
      by simp
    have skip: "\<forall>x \<in> set ?before. no_title_entry x"
      by (simp add: dict_get_def)
    have t: "\<not> truthy (dict_get ?d ''title'' JNull)"
      "map_of ?d ''appmsg_info'' = Some (JObject [(''title'', JString ''Nested'')])"
      "map_of [(''title'', JString ''Nested'')] ''title'' = Some (JString ''Nested'')"
      "truthy (JString ''Nested'')"
      by (simp_all add: dict_get_def)
    from publish_info_non_dicts_skipped[of ?kvs details_text json_loads, OF i1 i2 i3 i4] skip t
    show ?thesis by blast
  qed
  have direct: "article_title json_loads (JObject [(''publish_info'', JString direct_details_text)])
     = Inr (FromPublishInfoList (JString ''First''))"
  proof -
    let ?before = "[JBool True, JString ''title'', JObject [(''title'', JString '''')]]"
    let ?d = "[(''title'', JString ''First''), (''appmsg_info'', JObject [(''title'', JString ''Nested'')])]"
    let ?after = "[JObject [(''title'', JString ''Later'')]]"
    let ?kvs = "[(''publish_info'', JString direct_details_text)]"
    have i1: "no_appmsg_info_title ?kvs"
      by (simp add: no_appmsg_info_title_def)
    have i2: "map_of ?kvs ''publish_info'' = Some (JString direct_details_text)"
      by simp
    have i3: "direct_details_text \<noteq> []"
      by (simp add: direct_details_text_def)
    from direct_details_text_loads
    have i4: "json_loads direct_details_text = Inr (JArray (?before @ JObject ?d # ?after))"
      by simp
    have skip: "\<forall>x \<in> set ?before. no_title_entry x"
      by (simp add: dict_get_def)
    have t: "map_of ?d ''title'' = Some (JString ''First'')" "truthy (JString ''First'')"
      by simp_all
    from publish_info_non_dicts_skipped[of ?kvs direct_details_text json_loads, OF i1 i2 i3 i4] skip t
    show ?thesis by blast
  qed
  from nested direct show ?thesis by simp
qed


section \<open>The loop over the items\<close>










section \<open>The body as a whole\<close>

text \<open>
  Claim C5 as stated, that every body that is valid JSON and has no collection at
  \<^verbatim>\<open>publish_page.publish_list\<close> gives an empty listing and no error, fails: when
  \<^verbatim>\<open>publish_page\<close> is \<^verbatim>\<open>null\<close>, line 178 raises \<^verbatim>\<open>AttributeError\<close>, and when
  \<^verbatim>\<open>publish_list\<close> is the number 5, line 185 raises \<^verbatim>\<open>TypeError\<close>; both end in the handler
  of line 216.
\<close>

theorem absent_path_counterexample:
  \<open>json_loads ''{"publish_page": null}'' = Inr (JObject [(''publish_page'', JNull)])
   \<and> parse_articles json_loads (JString ''{"publish_page": null}'') = FetchingError AttributeError []
   \<and> json_loads ''{"publish_page": {"publish_list": 5}}''
       = Inr (JObject [(''publish_page'', JObject [(''publish_list'', JInt 5)])])
   \<and> parse_articles json_loads (JString ''{"publish_page": {"publish_list": 5}}'')
       = FetchingError TypeError []\<close>
  by code_simp

text \<open>
  Claim C5, amended: the parse ends with the decode error of line 174 exactly when the
  decoder raises \<^verbatim>\<open>JSONDecodeError\<close> on the body; and for every body that decodes to a
  dictionary in which \<^verbatim>\<open>publish_page\<close> is absent, or is a dictionary in which
  \<^verbatim>\<open>publish_list\<close> is absent or not truthy (\<^verbatim>\<open>null\<close>, \<^verbatim>\<open>false\<close>, zero, or an empty string,
  list or dictionary), the parse ends with the empty listing of line 181 and no error.
\<close>

theorem decode_failure_or_empty_listing:
  "(parse_articles loads (JString raw) = JsonDecodeFailed) = (loads raw = Inl JSONDecodeError)
   \<and> (loads raw = Inr (JObject response)
       \<and> (map_of response ''publish_page'' = None
           \<or> (\<exists>page. map_of response ''publish_page'' = Some (JObject page)
                \<and> (map_of page ''publish_list'' = None
                    \<or> (\<exists>pl. map_of page ''publish_list'' = Some pl \<and> \<not> truthy pl))))
      \<longrightarrow> parse_articles loads (JString raw) = NoArticlesFound)"
proof (intro conjI impI)
  show "(parse_articles loads (JString raw) = JsonDecodeFailed) = (loads raw = Inl JSONDecodeError)"
    by (simp add: parse_articles_def split: sum.splits py_exn.splits prod.splits option.splits)
next
  assume h: "loads raw = Inr (JObject response)
       \<and> (map_of response ''publish_page'' = None
           \<or> (\<exists>page. map_of response ''publish_page'' = Some (JObject page)
                \<and> (map_of page ''publish_list'' = None
                    \<or> (\<exists>pl. map_of page ''publish_list'' = Some pl \<and> \<not> truthy pl))))"
  then have "\<exists>pl. publish_list_of (JObject response) = Inr pl \<and> \<not> truthy pl"
    by (auto simp: publish_list_of_def dict_get_def)
  with h show "parse_articles loads (JString raw) = NoArticlesFound"
    by (auto simp: parse_articles_def)
qed

text \<open>The decoder on three small bodies.\<close>

lemma small_bodies:
  \<open>json_loads ''<html>'' = Inl JSONDecodeError\<close>
  \<open>json_loads ''{"base_resp": {"ret": 0}}'' = Inr (JObject [(''base_resp'', JObject [(''ret'', JInt 0)])])\<close>
  \<open>json_loads ''{"publish_page": {"publish_list": []}}''
     = Inr (JObject [(''publish_page'', JObject [(''publish_list'', JArray [])])])\<close>
  by code_simp+

text \<open>
  A body that is not JSON; a body without \<^verbatim>\<open>publish_page\<close>; a body with an empty
  \<^verbatim>\<open>publish_list\<close>.
\<close>

theorem decode_failure_or_empty_listing_witness:
  \<open>parse_articles json_loads (JString ''<html>'') = JsonDecodeFailed
   \<and> parse_articles json_loads (JString ''{"base_resp": {"ret": 0}}'') = NoArticlesFound
   \<and> parse_articles json_loads (JString ''{"publish_page": {"publish_list": []}}'') = NoArticlesFound\<close>
proof -
  have 1: \<open>parse_articles json_loads (JString ''<html>'') = JsonDecodeFailed\<close>
    using decode_failure_or_empty_listing[of json_loads \<open>''<html>''\<close>] small_bodies(1)
    by simp
  have 2: \<open>parse_articles json_loads (JString ''{"base_resp": {"ret": 0}}'') = NoArticlesFound\<close>
    using decode_failure_or_empty_listing[of json_loads \<open>''{"base_resp": {"ret": 0}}''\<close>
        "[(''base_resp'', JObject [(''ret'', JInt 0)])]"] small_bodies(2)
    by simp
  have 3: \<open>parse_articles json_loads (JString ''{"publish_page": {"publish_list": []}}'') = NoArticlesFound\<close>
    using decode_failure_or_empty_listing[of json_loads \<open>''{"publish_page": {"publish_list": []}}''\<close>
        "[(''publish_page'', JObject [(''publish_list'', JArray [])])]"] small_bodies(3)
    by simp
  from 1 2 3 show ?thesis by simp
qed

text \<open>
  Claim C2 as stated fails: in the body of the example the keys are \<open>publishPage\<close>,
  \<open>publishList\<close>, \<open>appmsgInfo\<close> and \<open>publishInfo\<close>, which the code does not read. Line
  178 finds no \<^verbatim>\<open>publish_page\<close>, the listing is empty and no title is logged.
\<close>

theorem example_body_camel_case_counterexample:
  "parse_articles json_loads (JString example_body_camel_case) = NoArticlesFound
   \<and> listing_titles (parse_articles json_loads (JString example_body_camel_case))
       \<noteq> [Some (JString ''Hello''), Some (JString ''World''), Some (JString ''Direct''), None]"
  by code_simp

text \<open>
  Claim C2, amended: the body of the example written with the keys \<^verbatim>\<open>publish_page\<close>,
  \<^verbatim>\<open>publish_list\<close>, \<^verbatim>\<open>appmsg_info\<close> and \<^verbatim>\<open>publish_info\<close> gives a listing of four items
  whose titles are \<open>Hello\<close>, \<open>World\<close>, \<open>Direct\<close> and none (line 214, "Could not find
  title in item"), in this order.
\<close>

theorem example_body_titles:
  "parse_articles json_loads (JString example_body) =
     FetchedArticles [FromAppmsgInfo (JString ''Hello''), FromPublishInfoList (JString ''World''),
       DirectTitle (JString ''Direct''), TitleNotFoundInItem]
   \<and> listing_titles (parse_articles json_loads (JString example_body)) =
       [Some (JString ''Hello''), Some (JString ''World''), Some (JString ''Direct''), None]"
  by code_simp

end
